theory Spec2Isabelle
  imports Complex_Main "HOL-Library.AList" "HOL-Library.Sublist"
begin

section \<open>Python values, dictionaries and exceptions\<close>

text \<open>
  The two source files, \<^verbatim>\<open>rag_system/factory.py\<close> and
  \<^verbatim>\<open>rag_system/utils/watsonx_client.py\<close>, work on dynamically typed values:
  keyword arguments, configuration dictionaries and the answers of the IBM SDK. A value is
  one of Python's \<^verbatim>\<open>None\<close>, a bool, an int, a float (taken as a real number: NaN and the
  infinities are left out), a str, a list or a dict with string keys. A dict is an
  association list in insertion order.
\<close>

datatype py_val =
    PNone
  | PBool bool
  | PInt int
  | PFloat real
  | PStr string
  | PList "py_val list"
  | PDict "(string \<times> py_val) list"

type_synonym py_dict = "(string \<times> py_val) list"

text \<open>
  The values of \<open>py_exception\<close> are the instances of Python's \<^verbatim>\<open>Exception\<close>: the
  class of the instance (the classes the two files raise or test for, and any other by its
  name), the classes that class inherits from below \<^verbatim>\<open>Exception\<close>, and the text
  \<^verbatim>\<open>str(e)\<close> gives. Signals below \<^verbatim>\<open>BaseException\<close> only (an interrupt of the
  process) are not failures of a call and are outside the model. A computation that may
  raise has a result of type \<open>py_exception + 'a\<close>, with \<open>Inl\<close> the raised exception.
  An \<^verbatim>\<open>except C\<close> clause catches the instances of \<^verbatim>\<open>C\<close> and of its subclasses.
\<close>

datatype exc_class =
    AttributeError
  | ImportError
  | IndexError
  | KeyError
  | TypeError
  | ValueError
  | OtherError string

datatype py_exception =
  Raised (exc_class: exc_class) (exc_bases: "exc_class list") (exc_str: string)

definition isinstance :: "py_exception \<Rightarrow> exc_class \<Rightarrow> bool" where
  "isinstance e c = (exc_class e = c \<or> c \<in> set (exc_bases e))"

definition LookupError :: exc_class where
  "LookupError = OtherError ''LookupError''"

text \<open>Truth value testing (\<^verbatim>\<open>if x:\<close>, \<^verbatim>\<open>not x\<close>).\<close>

fun truthy :: "py_val \<Rightarrow> bool" where
  "truthy PNone = False"
| "truthy (PBool b) = b"
| "truthy (PInt i) = (i \<noteq> 0)"
| "truthy (PFloat x) = (x \<noteq> 0)"
| "truthy (PStr s) = (s \<noteq> [])"
| "truthy (PList xs) = (xs \<noteq> [])"
| "truthy (PDict d) = (d \<noteq> [])"

fun type_name :: "py_val \<Rightarrow> string" where
  "type_name PNone = ''NoneType''"
| "type_name (PBool b) = ''bool''"
| "type_name (PInt i) = ''int''"
| "type_name (PFloat x) = ''float''"
| "type_name (PStr s) = ''str''"
| "type_name (PList xs) = ''list''"
| "type_name (PDict d) = ''dict''"

definition quoted :: "string \<Rightarrow> string" where
  "quoted s = CHR 0x27 # s @ [CHR 0x27]"

text \<open>\<^verbatim>\<open>d.get(k)\<close>, \<^verbatim>\<open>d.get(k, default)\<close>, \<^verbatim>\<open>d[k]\<close>, \<^verbatim>\<open>k in d\<close> and
  \<^verbatim>\<open>d[k] = v\<close> on a dict.\<close>

definition dict_get :: "py_dict \<Rightarrow> string \<Rightarrow> py_val" where
  "dict_get d k = (case map_of d k of None \<Rightarrow> PNone | Some v \<Rightarrow> v)"

definition dict_get_default :: "py_dict \<Rightarrow> string \<Rightarrow> py_val \<Rightarrow> py_val" where
  "dict_get_default d k dflt = (case map_of d k of None \<Rightarrow> dflt | Some v \<Rightarrow> v)"

definition dict_subscript :: "(string \<times> 'a) list \<Rightarrow> string \<Rightarrow> py_exception + 'a" where
  "dict_subscript d k =
     (case map_of d k of None \<Rightarrow> Inl (Raised KeyError [LookupError] (quoted k)) | Some v \<Rightarrow> Inr v)"

definition dict_contains :: "py_dict \<Rightarrow> string \<Rightarrow> bool" where
  "dict_contains d k = (map_of d k \<noteq> None)"

definition dict_set :: "py_dict \<Rightarrow> string \<Rightarrow> py_val \<Rightarrow> py_dict" where
  "dict_set d k v = AList.update k v d"

text \<open>\<^verbatim>\<open>x[0]\<close> on any value, and \<^verbatim>\<open>x.get(k, default)\<close> on any value: only a dict has
  the method. The keys of a modelled dict are strings, so the key \<^verbatim>\<open>0\<close> is never there.\<close>

fun subscript_0 :: "py_val \<Rightarrow> py_exception + py_val" where
  "subscript_0 (PList []) = Inl (Raised IndexError [LookupError] ''list index out of range'')"
| "subscript_0 (PList (x # xs)) = Inr x"
| "subscript_0 (PStr []) = Inl (Raised IndexError [LookupError] ''string index out of range'')"
| "subscript_0 (PStr (c # cs)) = Inr (PStr [c])"
| "subscript_0 (PDict d) = Inl (Raised KeyError [LookupError] ''0'')"
| "subscript_0 v =
     Inl (Raised TypeError [] (quoted (type_name v) @ '' object is not subscriptable''))"

fun method_get :: "py_val \<Rightarrow> string \<Rightarrow> py_val \<Rightarrow> py_exception + py_val" where
  "method_get (PDict d) k dflt = Inr (dict_get_default d k dflt)"
| "method_get v k dflt =
     Inl (Raised AttributeError []
       (quoted (type_name v) @ '' object has no attribute '' @ quoted ''get''))"

text \<open>\<^verbatim>\<open>str.lower()\<close>, on the ASCII letters.\<close>

definition lower_char :: "char \<Rightarrow> char" where
  "lower_char c =
     (case map_of (zip ''ABCDEFGHIJKLMNOPQRSTUVWXYZ'' ''abcdefghijklmnopqrstuvwxyz'') c of
        None \<Rightarrow> c
      | Some l \<Rightarrow> l)"

definition lower :: "string \<Rightarrow> string" where
  "lower s = map lower_char s"

section \<open>The IBM SDK, as the client sees it\<close>

text \<open>
  The package \<^verbatim>\<open>ibm_watsonx_ai\<close> is not part of the repository. The client reaches it
  through a handful of calls, and each call either raises or returns; the record
  \<open>watsonx_sdk\<close> fixes, for every call and every argument, which of the two happens.
  A constructor that succeeds yields an object determined by its arguments, so the
  methods take the constructor's arguments in its place. \<^verbatim>\<open>TextGenParameters\<close> is a
  plain schema object that holds the fields it was given.
\<close>

record credentials =
  cred_api_key :: py_val
  cred_url :: py_val

datatype text_gen_parameters = TextGenParameters py_dict

record inference_args =
  model_id :: string
  inf_credentials :: credentials
  inf_project_id :: py_val
  params :: "text_gen_parameters option"

record embeddings_args =
  emb_model_id :: string
  emb_credentials :: credentials
  emb_project_id :: py_val

text \<open>
  What \<^verbatim>\<open>generate\<close> returns is either a dict or some other object; of the latter the
  client only takes \<^verbatim>\<open>str(result)\<close>, so it is given by that text. What
  \<^verbatim>\<open>embed_query\<close> returns is either a list or some other object. A text stream is the
  chunks the iterator hands out, followed by its normal end (\<open>None\<close>) or by the exception
  that ends it; an exception of the attribute lookup or of the call itself is a stream
  that ends at once, with no chunk. The backend signals completion after finitely many
  chunks; a stream without end is outside the model.
\<close>

datatype gen_result = GenDict py_dict | GenOther string

datatype embed_result = EmbList "py_val list" | EmbOther

record watsonx_sdk =
  import_package :: "py_exception option"
  new_Credentials :: "py_val \<Rightarrow> py_val \<Rightarrow> py_exception option"
  APIClient :: "credentials \<Rightarrow> py_exception option"
  set_default_project :: "credentials \<Rightarrow> py_val \<Rightarrow> py_exception option"
  ModelInference :: "inference_args \<Rightarrow> py_exception option"
  generate :: "inference_args \<Rightarrow> string \<Rightarrow> py_exception + gen_result"
  generate_text_stream :: "inference_args \<Rightarrow> string \<Rightarrow> py_val list \<times> py_exception option"
  import_Embeddings :: "py_exception option"
  Embeddings :: "embeddings_args \<Rightarrow> py_exception option"
  embed_query :: "embeddings_args \<Rightarrow> string \<Rightarrow> py_exception + embed_result"

section \<open>\<^verbatim>\<open>WatsonXClient\<close>\<close>

record watsonx_client =
  api_key :: py_val
  project_id :: py_val
  url :: py_val

definition client_credentials :: "watsonx_client \<Rightarrow> credentials" where
  "client_credentials self = \<lparr>cred_api_key = api_key self, cred_url = url self\<rparr>"

text \<open>\<^verbatim>\<open>__init__\<close>: the imports, the credentials, the API client and its default project.
  An \<^verbatim>\<open>ImportError\<close> of the imports is raised again with the client's own message.\<close>

definition WatsonXClient_init ::
  "watsonx_sdk \<Rightarrow> py_val \<Rightarrow> py_val \<Rightarrow> py_val \<Rightarrow> py_exception + watsonx_client" where
  "WatsonXClient_init sdk key project service_url =
     (let self = \<lparr>api_key = key, project_id = project, url = service_url\<rparr> in
      case import_package sdk of
        Some e \<Rightarrow>
          (if isinstance e ImportError then
             Inl (Raised ImportError []
               (''ibm-watsonx-ai package is required. '' @
                ''Install it with: pip install ibm-watsonx-ai''))
           else Inl e)
      | None \<Rightarrow>
          (case new_Credentials sdk (api_key self) (url self) of
             Some e \<Rightarrow> Inl e
           | None \<Rightarrow>
               (case APIClient sdk (client_credentials self) of
                  Some e \<Rightarrow> Inl e
                | None \<Rightarrow>
                    (case set_default_project sdk (client_credentials self) (project_id self) of
                       Some e \<Rightarrow> Inl e
                     | None \<Rightarrow> Inr self))))"

subsection \<open>\<^verbatim>\<open>generate_embedding\<close>\<close>

definition embedding_args :: "watsonx_client \<Rightarrow> string \<Rightarrow> embeddings_args" where
  "embedding_args self model =
     \<lparr>emb_model_id = model, emb_credentials = client_credentials self,
      emb_project_id = project_id self\<rparr>"

definition generate_embedding_try ::
  "watsonx_sdk \<Rightarrow> watsonx_client \<Rightarrow> string \<Rightarrow> string \<Rightarrow> py_exception + py_val list" where
  "generate_embedding_try sdk self model text =
     (case import_Embeddings sdk of
        Some e \<Rightarrow> Inl e
      | None \<Rightarrow>
          (let embedding_model = embedding_args self model in
           case Embeddings sdk embedding_model of
             Some e \<Rightarrow> Inl e
           | None \<Rightarrow>
               (case embed_query sdk embedding_model text of
                  Inl e \<Rightarrow> Inl e
                | Inr (EmbList result) \<Rightarrow> Inr result
                | Inr EmbOther \<Rightarrow> Inr [])))"

definition generate_embedding ::
  "watsonx_sdk \<Rightarrow> watsonx_client \<Rightarrow> string \<Rightarrow> string \<Rightarrow> py_exception + py_val list" where
  "generate_embedding sdk self model text =
     (case generate_embedding_try sdk self model text of
        Inl e \<Rightarrow> Inr []
      | Inr result \<Rightarrow> Inr result)"

subsection \<open>\<^verbatim>\<open>generate_completion\<close>\<close>

text \<open>
  Lines 107 to 116: the sampling parameters taken from the keyword arguments. Each test is
  a truth value test of \<^verbatim>\<open>kwargs.get(k)\<close>; where it passes the key is present, so
  \<^verbatim>\<open>kwargs[k]\<close> is the value just tested.
\<close>

definition forward_param :: "py_dict \<Rightarrow> string \<Rightarrow> string \<Rightarrow> py_dict \<Rightarrow> py_dict" where
  "forward_param kwargs k k' gen_params =
     (if truthy (dict_get kwargs k) then dict_set gen_params k' (dict_get kwargs k)
      else gen_params)"

definition completion_gen_params :: "py_dict \<Rightarrow> py_dict" where
  "completion_gen_params kwargs =
     forward_param kwargs ''top_k'' ''top_k''
       (forward_param kwargs ''top_p'' ''top_p''
         (forward_param kwargs ''temperature'' ''temperature''
           (forward_param kwargs ''max_tokens'' ''max_new_tokens'' [])))"

definition make_parameters :: "py_dict \<Rightarrow> text_gen_parameters option" where
  "make_parameters gen_params =
     (if gen_params \<noteq> [] then Some (TextGenParameters gen_params) else None)"

definition completion_args :: "watsonx_client \<Rightarrow> string \<Rightarrow> py_dict \<Rightarrow> inference_args" where
  "completion_args self model kwargs =
     \<lparr>model_id = model, inf_credentials = client_credentials self,
      inf_project_id = project_id self,
      params = make_parameters (completion_gen_params kwargs)\<rparr>"

text \<open>Lines 133 to 137, shared word for word with lines 213 to 217 of the stream.\<close>

definition extract_generated_text :: "gen_result \<Rightarrow> py_exception + py_val" where
  "extract_generated_text result =
     (case result of
        GenDict d \<Rightarrow>
          (case subscript_0 (dict_get_default d ''results'' (PList [PDict []])) of
             Inl e \<Rightarrow> Inl e
           | Inr first \<Rightarrow> method_get first ''generated_text'' (PStr ''''))
      | GenOther s \<Rightarrow> Inr (PStr s))"

text \<open>
  The body of the \<^verbatim>\<open>try\<close>. Both branches of \<^verbatim>\<open>if images:\<close> make the same call; the
  first also prints a warning. Lines written by \<^verbatim>\<open>print\<close> are no part of any returned
  value and are not modelled. \<^verbatim>\<open>format\<close> and \<^verbatim>\<open>enable_thinking\<close> are accepted and
  never read.
\<close>

definition generate_completion_try ::
  "watsonx_sdk \<Rightarrow> watsonx_client \<Rightarrow> string \<Rightarrow> string \<Rightarrow> string \<Rightarrow> 'img list option \<Rightarrow>
     bool option \<Rightarrow> py_dict \<Rightarrow> py_exception + py_dict" where
  "generate_completion_try sdk self model prompt format images enable_thinking kwargs =
     (let model_inference = completion_args self model kwargs in
      case ModelInference sdk model_inference of
        Some e \<Rightarrow> Inl e
      | None \<Rightarrow>
          (case (if images \<noteq> None \<and> images \<noteq> Some []
                 then generate sdk model_inference prompt
                 else generate sdk model_inference prompt) of
             Inl e \<Rightarrow> Inl e
           | Inr result \<Rightarrow>
               (case extract_generated_text result of
                  Inl e \<Rightarrow> Inl e
                | Inr generated_text \<Rightarrow>
                    Inr [(''response'', generated_text),
                         (''model'', PStr model),
                         (''done'', PBool True)])))"

definition generate_completion ::
  "watsonx_sdk \<Rightarrow> watsonx_client \<Rightarrow> string \<Rightarrow> string \<Rightarrow> string \<Rightarrow> 'img list option \<Rightarrow>
     bool option \<Rightarrow> py_dict \<Rightarrow> py_exception + py_dict" where
  "generate_completion sdk self model prompt format images enable_thinking kwargs =
     (case generate_completion_try sdk self model prompt format images enable_thinking kwargs of
        Inl e \<Rightarrow> Inr [(''response'', PStr ''''), (''error'', PStr (exc_str e))]
      | Inr r \<Rightarrow> Inr r)"

subsection \<open>\<^verbatim>\<open>generate_completion_async\<close>\<close>

text \<open>
  \<^verbatim>\<open>await loop.run_in_executor(None, f)\<close> runs the thunk on a worker and hands back what
  it returns, or raises what it raised. The named parameter \<^verbatim>\<open>timeout\<close> is bound by
  the signature and so never part of \<^verbatim>\<open>kwargs\<close>; the body does not read it.
\<close>

definition await_run_in_executor :: "(unit \<Rightarrow> py_exception + 'a) \<Rightarrow> py_exception + 'a" where
  "await_run_in_executor f = f ()"

definition generate_completion_async ::
  "watsonx_sdk \<Rightarrow> watsonx_client \<Rightarrow> string \<Rightarrow> string \<Rightarrow> string \<Rightarrow> 'img list option \<Rightarrow>
     bool option \<Rightarrow> int \<Rightarrow> py_dict \<Rightarrow> py_exception + py_dict" where
  "generate_completion_async sdk self model prompt format images enable_thinking timeout kwargs =
     await_run_in_executor
       (\<lambda>_. generate_completion sdk self model prompt format images enable_thinking kwargs)"

subsection \<open>\<^verbatim>\<open>stream_completion\<close>\<close>

text \<open>
  The generator is given by the chunks it yields, in order, and by the exception it raises
  out of itself at the end, if any. Only \<^verbatim>\<open>max_tokens\<close> and \<^verbatim>\<open>temperature\<close> are
  forwarded here.
\<close>

definition stream_gen_params :: "py_dict \<Rightarrow> py_dict" where
  "stream_gen_params kwargs =
     forward_param kwargs ''temperature'' ''temperature''
       (forward_param kwargs ''max_tokens'' ''max_new_tokens'' [])"

definition stream_args :: "watsonx_client \<Rightarrow> string \<Rightarrow> py_dict \<Rightarrow> inference_args" where
  "stream_args self model kwargs =
     \<lparr>model_id = model, inf_credentials = client_credentials self,
      inf_project_id = project_id self,
      params = make_parameters (stream_gen_params kwargs)\<rparr>"

text \<open>The handler of \<^verbatim>\<open>AttributeError\<close> (lines 212 to 218): one blocking call.\<close>

definition stream_fallback ::
  "watsonx_sdk \<Rightarrow> inference_args \<Rightarrow> string \<Rightarrow> py_exception + py_val" where
  "stream_fallback sdk model_inference prompt =
     (case generate sdk model_inference prompt of
        Inl e \<Rightarrow> Inl e
      | Inr result \<Rightarrow> extract_generated_text result)"

text \<open>The inner \<^verbatim>\<open>try\<close> (lines 207 to 218): yielded chunks, and what is raised out of it.
  The handler encloses the whole loop, so it also takes an \<^verbatim>\<open>AttributeError\<close> raised
  after chunks have been yielded.\<close>

definition stream_inner ::
  "watsonx_sdk \<Rightarrow> inference_args \<Rightarrow> string \<Rightarrow> py_val list \<times> py_exception option" where
  "stream_inner sdk model_inference prompt =
     (case generate_text_stream sdk model_inference prompt of
        (chunks, None) \<Rightarrow> (filter truthy chunks, None)
      | (chunks, Some e) \<Rightarrow>
          (if isinstance e AttributeError then
             (case stream_fallback sdk model_inference prompt of
                Inl e' \<Rightarrow> (filter truthy chunks, Some e')
              | Inr generated_text \<Rightarrow> (filter truthy chunks @ [generated_text], None))
           else (filter truthy chunks, Some e)))"

definition stream_completion ::
  "watsonx_sdk \<Rightarrow> watsonx_client \<Rightarrow> string \<Rightarrow> string \<Rightarrow> 'img list option \<Rightarrow> bool option \<Rightarrow>
     py_dict \<Rightarrow> py_val list \<times> py_exception option" where
  "stream_completion sdk self model prompt images enable_thinking kwargs =
     (let model_inference = stream_args self model kwargs in
      case ModelInference sdk model_inference of
        Some e \<Rightarrow> ([PStr ''''], None)
      | None \<Rightarrow>
          (case stream_inner sdk model_inference prompt of
             (yielded, None) \<Rightarrow> (yielded, None)
           | (yielded, Some e) \<Rightarrow> (yielded @ [PStr ''''], None)))"

section \<open>The composition root: \<^verbatim>\<open>factory.py\<close>\<close>

text \<open>
  The module \<^verbatim>\<open>rag_system.main\<close> is not among the sources; its four globals are taken
  as they are found. The values of \<^verbatim>\<open>PIPELINE_CONFIGS\<close> are dict objects, and
  \<^verbatim>\<open>PIPELINE_CONFIGS.get\<close> hands out the object itself, not a copy: the table maps a
  mode name to the address of its dict, and the store \<open>heap\<close> holds the dicts. The
  store also keeps, in order, the provider adapters whose constructors have been called.
  \<^verbatim>\<open>load_dotenv()\<close> changes the process environment only, which the globals, read
  when \<^verbatim>\<open>rag_system.main\<close> was imported, no longer depend on.
\<close>

type_synonym addr = nat

record main_config =
  PIPELINE_CONFIGS :: "(string \<times> addr) list"
  OLLAMA_CONFIG :: py_dict
  LLM_BACKEND :: string
  WATSONX_CONFIG :: py_dict

datatype construction =
    Construct_WatsonXClient py_val py_val py_val
  | Construct_OllamaClient py_val

record world =
  heap :: "addr \<Rightarrow> py_dict"
  constructed :: "construction list"

text \<open>
  Modelled from the spec: the classes \<^verbatim>\<open>OllamaClient\<close>, \<^verbatim>\<open>Agent\<close> and
  \<^verbatim>\<open>IndexingPipeline\<close> are missing from the sources. The local adapter is built from
  a host address; the agent constructor and the indexing-pipeline constructor accept the
  triple of pipeline configuration, provider adapter and backend configuration. An
  object that has been built is the record of what it was given, the pipeline
  configuration by reference. Of the three constructors nothing else is known, so the
  record \<open>collaborators\<close> fixes, for each and for every argument, whether it raises;
  the two that receive the pipeline configuration see the dict as it is at the call, and
  leave the store as it is.
\<close>

record ollama_client =
  host :: py_val

datatype llm_client = WatsonX watsonx_client | Ollama ollama_client

record agent =
  agent_pipeline_configs :: addr
  agent_llm_client :: llm_client
  agent_ollama_config :: py_dict

record indexing_pipeline =
  pipeline_config :: addr
  pipeline_llm_client :: llm_client
  pipeline_llm_config :: py_dict

record collaborators =
  new_OllamaClient :: "py_val \<Rightarrow> py_exception option"
  new_Agent :: "py_dict \<Rightarrow> llm_client \<Rightarrow> py_dict \<Rightarrow> py_exception option"
  new_IndexingPipeline :: "py_dict \<Rightarrow> llm_client \<Rightarrow> py_dict \<Rightarrow> py_exception option"

definition incomplete_message :: string where
  "incomplete_message =
     ''Watson X configuration incomplete. Please set WATSONX_API_KEY and WATSONX_PROJECT_ID '' @
     ''environment variables.''"

text \<open>Lines 15 to 32 of \<^verbatim>\<open>get_agent\<close>, the same text as lines 61 to 78 of
  \<^verbatim>\<open>get_indexing_pipeline\<close>. \<^verbatim>\<open>not a or not b\<close> looks \<^verbatim>\<open>b\<close> up only when
  \<^verbatim>\<open>a\<close> is true.\<close>

definition init_llm_client ::
  "main_config \<Rightarrow> collaborators \<Rightarrow> watsonx_sdk \<Rightarrow> world \<Rightarrow>
     world \<times> (py_exception + llm_client \<times> py_dict)" where
  "init_llm_client cfg ext sdk w =
     (if lower (LLM_BACKEND cfg) = ''watsonx'' then
        (case dict_subscript (WATSONX_CONFIG cfg) ''api_key'' of
           Inl e \<Rightarrow> (w, Inl e)
         | Inr key \<Rightarrow>
             if \<not> truthy key then (w, Inl (Raised ValueError [] incomplete_message))
             else
               (case dict_subscript (WATSONX_CONFIG cfg) ''project_id'' of
                  Inl e \<Rightarrow> (w, Inl e)
                | Inr project \<Rightarrow>
                    if \<not> truthy project then (w, Inl (Raised ValueError [] incomplete_message))
                    else
                      (case dict_subscript (WATSONX_CONFIG cfg) ''url'' of
                         Inl e \<Rightarrow> (w, Inl e)
                       | Inr service_url \<Rightarrow>
                           (let w' = w\<lparr>constructed := constructed w @
                                       [Construct_WatsonXClient key project service_url]\<rparr> in
                            case WatsonXClient_init sdk key project service_url of
                              Inl e \<Rightarrow> (w', Inl e)
                            | Inr c \<Rightarrow> (w', Inr (WatsonX c, WATSONX_CONFIG cfg))))))
      else
        (case dict_subscript (OLLAMA_CONFIG cfg) ''host'' of
           Inl e \<Rightarrow> (w, Inl e)
         | Inr h \<Rightarrow>
             (let w' = w\<lparr>constructed := constructed w @ [Construct_OllamaClient h]\<rparr> in
              case new_OllamaClient ext h of
                Some e \<Rightarrow> (w', Inl e)
              | None \<Rightarrow> (w', Inr (Ollama \<lparr>host = h\<rparr>, OLLAMA_CONFIG cfg)))))"

text \<open>\<^verbatim>\<open>PIPELINE_CONFIGS.get(mode, PIPELINE_CONFIGS['default'])\<close>: the default
  argument is evaluated first, whether or not the mode is in the table.\<close>

definition resolve_config :: "main_config \<Rightarrow> string \<Rightarrow> py_exception + addr" where
  "resolve_config cfg mode =
     (case dict_subscript (PIPELINE_CONFIGS cfg) ''default'' of
        Inl e \<Rightarrow> Inl e
      | Inr dflt \<Rightarrow>
          Inr (case map_of (PIPELINE_CONFIGS cfg) mode of None \<Rightarrow> dflt | Some a \<Rightarrow> a))"

definition default_storage :: py_val where
  "default_storage =
     PDict [(''db_path'', PStr ''lancedb''),
            (''text_table_name'', PStr ''text_pages_default''),
            (''image_table_name'', PStr ''image_pages'')]"

text \<open>Lines 36 to 41: the assignment \<^verbatim>\<open>config['storage'] = {...}\<close> writes into the
  object \<^verbatim>\<open>config\<close> refers to.\<close>

definition inject_storage :: "world \<Rightarrow> addr \<Rightarrow> world" where
  "inject_storage w config =
     (if \<not> dict_contains (heap w config) ''storage''
      then w\<lparr>heap := (heap w)(config := dict_set (heap w config) ''storage'' default_storage)\<rparr>
      else w)"

text \<open>\<^verbatim>\<open>get_agent\<close>: the write of lines 36 to 41 comes before the call
  \<^verbatim>\<open>Agent(...)\<close> of line 43, and stays when that call raises.\<close>

definition get_agent ::
  "main_config \<Rightarrow> collaborators \<Rightarrow> watsonx_sdk \<Rightarrow> world \<Rightarrow> string \<Rightarrow>
     world \<times> (py_exception + agent)" where
  "get_agent cfg ext sdk w mode =
     (case init_llm_client cfg ext sdk w of
        (w1, Inl e) \<Rightarrow> (w1, Inl e)
      | (w1, Inr (client, llm_config)) \<Rightarrow>
          (case resolve_config cfg mode of
             Inl e \<Rightarrow> (w1, Inl e)
           | Inr config \<Rightarrow>
               (let w2 = inject_storage w1 config in
                case new_Agent ext (heap w2 config) client llm_config of
                  Some e \<Rightarrow> (w2, Inl e)
                | None \<Rightarrow>
                    (w2, Inr \<lparr>agent_pipeline_configs = config, agent_llm_client = client,
                              agent_ollama_config = llm_config\<rparr>))))"

definition get_indexing_pipeline ::
  "main_config \<Rightarrow> collaborators \<Rightarrow> watsonx_sdk \<Rightarrow> world \<Rightarrow> string \<Rightarrow>
     world \<times> (py_exception + indexing_pipeline)" where
  "get_indexing_pipeline cfg ext sdk w mode =
     (case init_llm_client cfg ext sdk w of
        (w1, Inl e) \<Rightarrow> (w1, Inl e)
      | (w1, Inr (client, llm_config)) \<Rightarrow>
          (case resolve_config cfg mode of
             Inl e \<Rightarrow> (w1, Inl e)
           | Inr config \<Rightarrow>
               (case new_IndexingPipeline ext (heap w1 config) client llm_config of
                  Some e \<Rightarrow> (w1, Inl e)
                | None \<Rightarrow>
                    (w1, Inr \<lparr>pipeline_config = config, pipeline_llm_client = client,
                              pipeline_llm_config = llm_config\<rparr>))))"

text \<open>The table by value: what each mode name stands for in a given store.\<close>

definition table_value :: "main_config \<Rightarrow> world \<Rightarrow> string \<Rightarrow> py_dict option" where
  "table_value cfg w mode = map_option (heap w) (map_of (PIPELINE_CONFIGS cfg) mode)"

section \<open>Concrete inputs\<close>

definition example_client :: watsonx_client where
  "example_client =
     \<lparr>api_key = PStr ''key'', project_id = PStr ''p1'',
      url = PStr ''https://us-south.ml.cloud.ibm.com''\<rparr>"

definition answer :: gen_result where
  "answer = GenDict [(''results'', PList [PDict [(''generated_text'', PStr ''Hello'')]])]"

text \<open>An SDK on which every call succeeds, and variations of it on which one call fails.\<close>

definition working_sdk :: watsonx_sdk where
  "working_sdk =
     \<lparr>import_package = None,
      new_Credentials = (\<lambda>k u. None),
      APIClient = (\<lambda>c. None),
      set_default_project = (\<lambda>c p. None),
      ModelInference = (\<lambda>a. None),
      generate = (\<lambda>a p. Inr answer),
      generate_text_stream = (\<lambda>a p. ([PStr ''Hel'', PStr '''', PStr ''lo''], None)),
      import_Embeddings = None,
      Embeddings = (\<lambda>a. None),
      embed_query = (\<lambda>a t. Inr (EmbList [PFloat 1, PFloat 2]))\<rparr>"

definition refused :: py_exception where
  "refused =
     Raised (OtherError ''ConnectionError'') [OtherError ''OSError''] ''connection refused''"

definition no_attribute :: py_exception where
  "no_attribute = Raised AttributeError [] ''no attribute''"

definition failing_sdk :: watsonx_sdk where
  "failing_sdk = working_sdk\<lparr>generate := (\<lambda>a p. Inl refused)\<rparr>"

definition broken_stream_sdk :: watsonx_sdk where
  "broken_stream_sdk =
     working_sdk\<lparr>generate_text_stream := (\<lambda>a p. ([PStr ''Hel''], Some refused))\<rparr>"

definition attribute_stream_sdk :: watsonx_sdk where
  "attribute_stream_sdk =
     working_sdk\<lparr>generate_text_stream := (\<lambda>a p. ([PStr ''Hel''], Some no_attribute))\<rparr>"

definition no_embeddings_sdk :: watsonx_sdk where
  "no_embeddings_sdk =
     working_sdk\<lparr>import_Embeddings := Some (Raised ImportError [] ''cannot import name'')\<rparr>"

text \<open>Collaborators whose constructors all succeed, and ones whose agent constructor
  raises.\<close>

definition working_collaborators :: collaborators where
  "working_collaborators =
     \<lparr>new_OllamaClient = (\<lambda>h. None),
      new_Agent = (\<lambda>c l b. None),
      new_IndexingPipeline = (\<lambda>c l b. None)\<rparr>"

definition agent_failure :: py_exception where
  "agent_failure = Raised (OtherError ''RuntimeError'') [] ''agent could not start''"

definition failing_agent_collaborators :: collaborators where
  "failing_agent_collaborators =
     working_collaborators\<lparr>new_Agent := (\<lambda>c l b. Some agent_failure)\<rparr>"

definition bare_table :: main_config where
  "bare_table =
     \<lparr>PIPELINE_CONFIGS = [(''default'', 0), (''fast'', 1)],
      OLLAMA_CONFIG = [(''host'', PStr ''http://localhost:11434'')],
      LLM_BACKEND = ''ollama'',
      WATSONX_CONFIG = [(''api_key'', PStr ''''), (''project_id'', PStr ''p1''),
                        (''url'', PStr ''https://us-south.ml.cloud.ibm.com'')]\<rparr>"

definition cloud_config :: main_config where
  "cloud_config = bare_table\<lparr>LLM_BACKEND := ''WatsonX''\<rparr>"

definition bare_world :: world where
  "bare_world =
     \<lparr>heap = (\<lambda>a. if a = 1 then [(''storage'', PDict [(''db_path'', PStr ''fastdb'')])]
                    else [(''description'', PStr ''default pipeline'')]),
      constructed = []\<rparr>"

section \<open>Properties of \<^verbatim>\<open>WatsonXClient\<close>\<close>

lemma generate_completion_try_cases:
  "generate_completion_try sdk self model prompt format images enable_thinking kwargs =
     (case ModelInference sdk (completion_args self model kwargs) of
        Some e \<Rightarrow> Inl e
      | None \<Rightarrow>
          (case generate sdk (completion_args self model kwargs) prompt of
             Inl e \<Rightarrow> Inl e
           | Inr result \<Rightarrow>
               (case extract_generated_text result of
                  Inl e \<Rightarrow> Inl e
                | Inr generated_text \<Rightarrow>
                    Inr [(''response'', generated_text), (''model'', PStr model),
                         (''done'', PBool True)])))"
  by (simp add: generate_completion_try_def Let_def)

text \<open>
  C1. Whenever a backend call inside \<^verbatim>\<open>generate_completion\<close> raises (the construction
  of the inference object, the generation call, or the reading of a malformed answer),
  nothing is raised to the caller: the call returns the dict whose \<^verbatim>\<open>response\<close> is the
  empty string and whose \<^verbatim>\<open>error\<close> is \<^verbatim>\<open>str(e)\<close> of the exception.
\<close>

theorem generate_completion_backend_failure:
  assumes "ModelInference sdk (completion_args self model kwargs) = Some e
         \<or> ModelInference sdk (completion_args self model kwargs) = None
           \<and> generate sdk (completion_args self model kwargs) prompt = Inl e
         \<or> ModelInference sdk (completion_args self model kwargs) = None
           \<and> (\<exists>result. generate sdk (completion_args self model kwargs) prompt = Inr result
                \<and> extract_generated_text result = Inl e)"
  shows "generate_completion sdk self model prompt format images enable_thinking kwargs =
           Inr [(''response'', PStr ''''), (''error'', PStr (exc_str e))]"
  using assms by (auto simp add: generate_completion_def generate_completion_try_cases)

theorem generate_completion_backend_failure_witness:
  "generate_completion failing_sdk example_client ''ibm/granite-13b-chat-v2'' ''What is AI?''
     '''' (None :: unit list option) None [(''temperature'', PFloat 0.7)] =
   Inr [(''response'', PStr ''''), (''error'', PStr ''connection refused'')]"
  using generate_completion_backend_failure [of failing_sdk example_client
      "''ibm/granite-13b-chat-v2''" "[(''temperature'', PFloat 0.7)]" refused "''What is AI?''"
      "''''" "None :: unit list option" None]
  by (simp add: failing_sdk_def working_sdk_def refused_def)

text \<open>
  C7, as the code has it. A result of \<^verbatim>\<open>generate_completion\<close> has one of two shapes.
  On success its keys are \<^verbatim>\<open>response\<close>, \<^verbatim>\<open>model\<close> and \<^verbatim>\<open>done\<close>, with the model
  identifier echoed and the flag true. On failure its keys are \<^verbatim>\<open>response\<close> and
  \<^verbatim>\<open>error\<close> only: the empty text and the description of the failure, with neither the
  model identifier nor the completion flag.
\<close>

theorem generate_completion_result_shape:
  "(\<exists>generated_text.
      generate_completion_try sdk self model prompt format images enable_thinking kwargs =
        Inr [(''response'', generated_text), (''model'', PStr model), (''done'', PBool True)]
      \<and> generate_completion sdk self model prompt format images enable_thinking kwargs =
        Inr [(''response'', generated_text), (''model'', PStr model), (''done'', PBool True)])
   \<or> (\<exists>e.
      generate_completion_try sdk self model prompt format images enable_thinking kwargs = Inl e
      \<and> generate_completion sdk self model prompt format images enable_thinking kwargs =
        Inr [(''response'', PStr ''''), (''error'', PStr (exc_str e))])"
  by (auto simp add: generate_completion_def generate_completion_try_cases
      split: option.splits sum.splits)

text \<open>C7 as written fails where the backend call fails: the result has no
  \<^verbatim>\<open>model\<close> key and no \<^verbatim>\<open>done\<close> key.\<close>

theorem generate_completion_failure_lacks_model_and_flag:
  "generate_completion failing_sdk example_client ''ibm/granite-13b-chat-v2'' ''What is AI?''
     '''' (None :: unit list option) None [] =
     Inr [(''response'', PStr ''''), (''error'', PStr ''connection refused'')]
   \<and> \<not> dict_contains [(''response'', PStr ''''), (''error'', PStr ''connection refused'')] ''model''
   \<and> \<not> dict_contains [(''response'', PStr ''''), (''error'', PStr ''connection refused'')] ''done''"
  by (simp add: generate_completion_def generate_completion_try_cases failing_sdk_def
      working_sdk_def refused_def dict_contains_def)

text \<open>
  C6. \<^verbatim>\<open>generate_completion_async\<close> returns the very value \<^verbatim>\<open>generate_completion\<close>
  returns on the same model, prompt, format, images, thinking flag and keyword arguments.
\<close>

theorem generate_completion_async_same_result:
  "generate_completion_async sdk self model prompt format images enable_thinking timeout kwargs =
   generate_completion sdk self model prompt format images enable_thinking kwargs"
  by (simp add: generate_completion_async_def await_run_in_executor_def)

text \<open>
  C10. Two calls of \<^verbatim>\<open>generate_completion_async\<close> that differ in the timeout only return
  equal results.
\<close>

theorem generate_completion_async_ignores_timeout:
  "generate_completion_async sdk self model prompt format images enable_thinking timeout kwargs =
   generate_completion_async sdk self model prompt format images enable_thinking timeout' kwargs"
  by (simp add: generate_completion_async_def)

text \<open>
  C9. \<^verbatim>\<open>generate_embedding\<close> never raises. When the import of the embeddings class, its
  construction or the query fails, it returns the empty list; when the query returns a
  list, it returns that list.
\<close>

theorem generate_embedding_never_raises:
  "(\<exists>v. generate_embedding sdk self model text = Inr v)
   \<and> (import_Embeddings sdk \<noteq> None
        \<or> Embeddings sdk (embedding_args self model) \<noteq> None
        \<or> (\<exists>e. embed_query sdk (embedding_args self model) text = Inl e)
      \<longrightarrow> generate_embedding sdk self model text = Inr [])
   \<and> (import_Embeddings sdk = None
        \<and> Embeddings sdk (embedding_args self model) = None
        \<and> embed_query sdk (embedding_args self model) text = Inr (EmbList vector)
      \<longrightarrow> generate_embedding sdk self model text = Inr vector)"
  by (auto simp add: generate_embedding_def generate_embedding_try_def Let_def
      split: option.splits sum.splits embed_result.splits)

theorem generate_embedding_never_raises_witness:
  "generate_embedding no_embeddings_sdk example_client ''ibm/slate-30m-english-rtrvr'' ''text'' =
     Inr []
   \<and> generate_embedding working_sdk example_client ''ibm/slate-30m-english-rtrvr'' ''text'' =
     Inr [PFloat 1, PFloat 2]"
  using
    generate_embedding_never_raises [of no_embeddings_sdk example_client
      "''ibm/slate-30m-english-rtrvr''" "''text''" "[]"]
    generate_embedding_never_raises [of working_sdk example_client
      "''ibm/slate-30m-english-rtrvr''" "''text''" "[PFloat 1, PFloat 2]"]
  by (simp add: no_embeddings_sdk_def working_sdk_def)

text \<open>
  C8 at \<^verbatim>\<open>temperature=0\<close>. The test \<^verbatim>\<open>if kwargs.get('temperature'):\<close> is a truth
  value test, and zero is false: a temperature of zero, supplied alone, leaves the
  parameters of the backend call at \<^verbatim>\<open>None\<close>, and supplied with other settings it is
  dropped from them, while a temperature of 0.7 is forwarded as given.
\<close>

theorem zero_temperature_not_forwarded:
  "params (completion_args self model [(''temperature'', PInt 0)]) = None
   \<and> params (completion_args self model [(''temperature'', PFloat 0), (''top_k'', PInt 5)]) =
       Some (TextGenParameters [(''top_k'', PInt 5)])
   \<and> params (completion_args self model [(''temperature'', PFloat 0.7)]) =
       Some (TextGenParameters [(''temperature'', PFloat 0.7)])"
  by (simp add: completion_args_def completion_gen_params_def forward_param_def
      make_parameters_def dict_get_def dict_set_def)

text \<open>What the code does forward: a sampling parameter whose value is true under truth
  value testing reaches the parameters unchanged, \<^verbatim>\<open>max_tokens\<close> under the name
  \<^verbatim>\<open>max_new_tokens\<close>; one that is absent is not forwarded.\<close>

lemma map_of_forward_param:
  "map_of (forward_param kwargs k k' gen_params) x =
     (if truthy (dict_get kwargs k) \<and> x = k' then Some (dict_get kwargs k)
      else map_of gen_params x)"
  by (simp add: forward_param_def dict_set_def update_conv')

lemma completion_gen_params_lookup:
  "map_of (completion_gen_params kwargs) ''max_new_tokens'' =
     (if truthy (dict_get kwargs ''max_tokens'') then map_of kwargs ''max_tokens'' else None)"
  "map_of (completion_gen_params kwargs) ''temperature'' =
     (if truthy (dict_get kwargs ''temperature'') then map_of kwargs ''temperature'' else None)"
  "map_of (completion_gen_params kwargs) ''top_p'' =
     (if truthy (dict_get kwargs ''top_p'') then map_of kwargs ''top_p'' else None)"
  "map_of (completion_gen_params kwargs) ''top_k'' =
     (if truthy (dict_get kwargs ''top_k'') then map_of kwargs ''top_k'' else None)"
  by (simp_all add: completion_gen_params_def map_of_forward_param dict_get_def
      split: option.splits)

text \<open>
  C4 at a stream that breaks off with an \<^verbatim>\<open>AttributeError\<close> after a chunk. The
  stream has handed out \<^verbatim>\<open>Hel\<close> when the exception is raised. The handler of line 211,
  written for an SDK without \<^verbatim>\<open>generate_text_stream\<close>, takes it, makes the blocking
  call and yields the whole text: the sequence is \<^verbatim>\<open>Hel\<close>, \<^verbatim>\<open>Hello\<close> and does not
  end with an empty chunk. On the same stream broken off by any other exception, the outer
  handler ends the sequence with the single empty chunk.
\<close>

theorem stream_attribute_error_ends_with_text:
  "generate_text_stream attribute_stream_sdk
     (stream_args example_client ''ibm/granite-13b-chat-v2'' []) ''What is AI?'' =
     ([PStr ''Hel''], Some no_attribute)
   \<and> stream_completion attribute_stream_sdk example_client ''ibm/granite-13b-chat-v2''
       ''What is AI?'' (None :: unit list option) None [] =
     ([PStr ''Hel'', PStr ''Hello''], None)
   \<and> last [PStr ''Hel'', PStr ''Hello''] \<noteq> PStr ''''
   \<and> stream_completion broken_stream_sdk example_client ''ibm/granite-13b-chat-v2''
       ''What is AI?'' (None :: unit list option) None [] =
     ([PStr ''Hel'', PStr ''''], None)"
  by (simp add: stream_completion_def stream_inner_def stream_fallback_def
      extract_generated_text_def dict_get_default_def attribute_stream_sdk_def
      broken_stream_sdk_def working_sdk_def no_attribute_def refused_def answer_def
      isinstance_def)

text \<open>What holds of every stream: \<^verbatim>\<open>stream_completion\<close> never raises; when the
  inference object cannot be built the sequence is a single empty chunk; when the stream
  fails with an exception that is no instance of \<^verbatim>\<open>AttributeError\<close>, the sequence ends
  with a single empty chunk right after the chunks already yielded; and when it fails with
  an instance of \<^verbatim>\<open>AttributeError\<close>, it ends with the text of the blocking call, or
  with a single empty chunk when that call fails as well.\<close>

lemma stream_completion_cases:
  "snd (stream_completion sdk self model prompt images enable_thinking kwargs) = None
   \<and> (ModelInference sdk (stream_args self model kwargs) = Some e
      \<longrightarrow> stream_completion sdk self model prompt images enable_thinking kwargs =
            ([PStr ''''], None))
   \<and> (ModelInference sdk (stream_args self model kwargs) = None
        \<and> generate_text_stream sdk (stream_args self model kwargs) prompt = (chunks, Some e)
        \<and> \<not> isinstance e AttributeError
      \<longrightarrow> stream_completion sdk self model prompt images enable_thinking kwargs =
            (filter truthy chunks @ [PStr ''''], None))
   \<and> (ModelInference sdk (stream_args self model kwargs) = None
        \<and> generate_text_stream sdk (stream_args self model kwargs) prompt = (chunks, Some e)
        \<and> isinstance e AttributeError
      \<longrightarrow> stream_completion sdk self model prompt images enable_thinking kwargs =
            (filter truthy chunks @
               [case stream_fallback sdk (stream_args self model kwargs) prompt of
                  Inl e' \<Rightarrow> PStr ''''
                | Inr generated_text \<Rightarrow> generated_text], None))"
  by (auto simp add: stream_completion_def stream_inner_def Let_def
      split: option.splits sum.splits prod.splits)

section \<open>Properties of the composition root\<close>

lemma init_llm_client_heap: "heap (fst (init_llm_client cfg ext sdk w)) = heap w"
  by (simp add: init_llm_client_def Let_def split: sum.splits option.splits)

lemma init_llm_client_incomplete:
  assumes "lower (LLM_BACKEND cfg) = ''watsonx''"
    and "map_of (WATSONX_CONFIG cfg) ''api_key'' = Some (PStr '''')"
  shows "init_llm_client cfg ext sdk w = (w, Inl (Raised ValueError [] incomplete_message))"
  using assms by (simp add: init_llm_client_def dict_subscript_def)

lemma message_names_credential: "sublist ''WATSONX_API_KEY'' incomplete_message"
  unfolding incomplete_message_def by code_simp

text \<open>
  C5. With the cloud backend selected (\<^verbatim>\<open>LLM_BACKEND\<close> is \<^verbatim>\<open>watsonx\<close> in any
  letter case) and the empty string as credential, whatever the project identifier, the
  mode and the behaviour of the SDK and of the other constructors, both \<^verbatim>\<open>get_agent\<close>
  and \<^verbatim>\<open>get_indexing_pipeline\<close> raise a \<^verbatim>\<open>ValueError\<close> whose message names the
  setting \<^verbatim>\<open>WATSONX_API_KEY\<close>, and no adapter constructor has been called by then.
\<close>

theorem empty_credential_fails_fast:
  assumes "lower (LLM_BACKEND cfg) = ''watsonx''"
    and "map_of (WATSONX_CONFIG cfg) ''api_key'' = Some (PStr '''')"
  shows "get_agent cfg ext sdk w mode = (w, Inl (Raised ValueError [] incomplete_message))
       \<and> get_indexing_pipeline cfg ext sdk w mode =
           (w, Inl (Raised ValueError [] incomplete_message))
       \<and> constructed (fst (get_agent cfg ext sdk w mode)) = constructed w
       \<and> constructed (fst (get_indexing_pipeline cfg ext sdk w mode)) = constructed w
       \<and> sublist ''WATSONX_API_KEY'' incomplete_message"
  by (simp add: get_agent_def get_indexing_pipeline_def init_llm_client_incomplete [OF assms]
      message_names_credential)

theorem empty_credential_fails_fast_witness:
  "dict_get (WATSONX_CONFIG cloud_config) ''project_id'' = PStr ''p1''
   \<and> get_agent cloud_config working_collaborators working_sdk bare_world ''default'' =
       (bare_world, Inl (Raised ValueError [] incomplete_message))
   \<and> get_indexing_pipeline cloud_config working_collaborators working_sdk bare_world ''default'' =
       (bare_world, Inl (Raised ValueError [] incomplete_message))
   \<and> constructed
       (fst (get_agent cloud_config working_collaborators working_sdk bare_world ''default'')) = []"
  using empty_credential_fails_fast
    [of cloud_config working_collaborators working_sdk bare_world "''default''"]
  by (simp add: cloud_config_def bare_table_def bare_world_def lower_def lower_char_def
      dict_get_def)

lemma get_agent_heap:
  "heap (fst (get_agent cfg ext sdk w mode)) =
     (case snd (init_llm_client cfg ext sdk w) of
        Inl e \<Rightarrow> heap w
      | Inr p \<Rightarrow>
          (case resolve_config cfg mode of
             Inl e \<Rightarrow> heap w
           | Inr config \<Rightarrow> heap (inject_storage (w\<lparr>constructed := c\<rparr>) config)))"
proof -
  obtain w1 r where init: "init_llm_client cfg ext sdk w = (w1, r)"
    by (cases "init_llm_client cfg ext sdk w")
  have h1: "heap w1 = heap w"
    using init_llm_client_heap [of cfg ext sdk w] init by simp
  have inj: "heap (inject_storage w1 config) = heap (inject_storage (w\<lparr>constructed := c\<rparr>) config)"
    for config
    using h1 by (simp add: inject_storage_def)
  show ?thesis
    using init h1 inj
    by (auto simp add: get_agent_def Let_def split: sum.splits option.splits prod.splits)
qed

lemma get_indexing_pipeline_heap:
  "heap (fst (get_indexing_pipeline cfg ext sdk w mode)) = heap w"
proof -
  obtain w1 r where init: "init_llm_client cfg ext sdk w = (w1, r)"
    by (cases "init_llm_client cfg ext sdk w")
  have h1: "heap w1 = heap w"
    using init_llm_client_heap [of cfg ext sdk w] init by simp
  show ?thesis
    using init h1
    by (auto simp add: get_indexing_pipeline_def split: sum.splits option.splits prod.splits)
qed

lemma get_agent_config:
  assumes "snd (get_agent cfg ext sdk w mode) = Inr ag"
  shows "resolve_config cfg mode = Inr (agent_pipeline_configs ag)"
proof -
  obtain w1 r where init: "init_llm_client cfg ext sdk w = (w1, r)"
    by (cases "init_llm_client cfg ext sdk w")
  show ?thesis
    using assms init
    by (auto simp add: get_agent_def Let_def split: sum.splits option.splits prod.splits)
qed

lemma resolve_config_table:
  assumes "map_of (PIPELINE_CONFIGS cfg) ''default'' = Some dflt"
  shows "resolve_config cfg mode =
           Inr (case map_of (PIPELINE_CONFIGS cfg) mode of None \<Rightarrow> dflt | Some a \<Rightarrow> a)"
  using assms by (simp add: resolve_config_def dict_subscript_def)

lemma resolve_config_no_default:
  assumes "map_of (PIPELINE_CONFIGS cfg) ''default'' = None"
  shows "resolve_config cfg mode = Inl (Raised KeyError [LookupError] (quoted ''default''))"
  using assms by (simp add: resolve_config_def dict_subscript_def)

text \<open>
  C2, as the code has it. \<^verbatim>\<open>get_agent\<close> makes no copy of the configuration it
  resolves: \<^verbatim>\<open>config\<close> is the very dict the shared table holds for the mode, or for
  \<^verbatim>\<open>default\<close> when the mode is not in the table. Once the backend client is built and
  the table has a \<^verbatim>\<open>default\<close> entry, the injection adds the default storage to that
  dict when it has no \<^verbatim>\<open>storage\<close> key, whether or not the agent constructor raises
  afterwards, and the agent that is returned holds that dict. This is the only change:
  every other dict, and the resolved one when it has the key already, is as before, so an
  entry of the table changes exactly when it is the resolved object and had no storage.
  A call that raises earlier (no client, no \<^verbatim>\<open>default\<close> entry) changes no dict, and
  \<^verbatim>\<open>get_indexing_pipeline\<close> never does.
\<close>

theorem injection_writes_resolved_object_only:
  "(\<forall>p dflt config.
       snd (init_llm_client cfg ext sdk w) = Inr p
       \<and> map_of (PIPELINE_CONFIGS cfg) ''default'' = Some dflt
       \<and> config = (case map_of (PIPELINE_CONFIGS cfg) mode of None \<Rightarrow> dflt | Some a \<Rightarrow> a)
     \<longrightarrow>
       heap (fst (get_agent cfg ext sdk w mode)) =
         (if dict_contains (heap w config) ''storage'' then heap w
          else (heap w)(config := dict_set (heap w config) ''storage'' default_storage))
       \<and> (\<forall>m. table_value cfg (fst (get_agent cfg ext sdk w mode)) m =
              (if map_of (PIPELINE_CONFIGS cfg) m = Some config
                  \<and> \<not> dict_contains (heap w config) ''storage''
               then Some (dict_set (heap w config) ''storage'' default_storage)
               else table_value cfg w m))
       \<and> (\<forall>ag. snd (get_agent cfg ext sdk w mode) = Inr ag
              \<longrightarrow> agent_pipeline_configs ag = config))
   \<and> ((\<exists>e. snd (init_llm_client cfg ext sdk w) = Inl e)
        \<or> map_of (PIPELINE_CONFIGS cfg) ''default'' = None
      \<longrightarrow> heap (fst (get_agent cfg ext sdk w mode)) = heap w)
   \<and> heap (fst (get_indexing_pipeline cfg ext sdk w mode)) = heap w"
proof (intro conjI allI impI)
  fix p dflt config
  assume a: "snd (init_llm_client cfg ext sdk w) = Inr p
       \<and> map_of (PIPELINE_CONFIGS cfg) ''default'' = Some dflt
       \<and> config = (case map_of (PIPELINE_CONFIGS cfg) mode of None \<Rightarrow> dflt | Some a \<Rightarrow> a)"
  then have res: "resolve_config cfg mode = Inr config"
    using resolve_config_table [of cfg dflt mode] by simp
  show h: "heap (fst (get_agent cfg ext sdk w mode)) =
         (if dict_contains (heap w config) ''storage'' then heap w
          else (heap w)(config := dict_set (heap w config) ''storage'' default_storage))"
    using a res get_agent_heap [of cfg ext sdk w mode "constructed w"]
    by (simp add: inject_storage_def)
  show "table_value cfg (fst (get_agent cfg ext sdk w mode)) m =
              (if map_of (PIPELINE_CONFIGS cfg) m = Some config
                  \<and> \<not> dict_contains (heap w config) ''storage''
               then Some (dict_set (heap w config) ''storage'' default_storage)
               else table_value cfg w m)" for m
    using h by (cases "map_of (PIPELINE_CONFIGS cfg) m") (simp_all add: table_value_def)
  show "agent_pipeline_configs ag = config"
    if "snd (get_agent cfg ext sdk w mode) = Inr ag" for ag
    using get_agent_config [OF that] res by simp
next
  assume "(\<exists>e. snd (init_llm_client cfg ext sdk w) = Inl e)
        \<or> map_of (PIPELINE_CONFIGS cfg) ''default'' = None"
  then show "heap (fst (get_agent cfg ext sdk w mode)) = heap w"
    using get_agent_heap [of cfg ext sdk w mode "constructed w"]
      resolve_config_no_default [of cfg mode]
    by (auto split: sum.splits)
next
  show "heap (fst (get_indexing_pipeline cfg ext sdk w mode)) = heap w"
    by (rule get_indexing_pipeline_heap)
qed

lemma init_llm_client_local:
  "snd (init_llm_client bare_table working_collaborators working_sdk bare_world) =
     Inr (Ollama \<lparr>host = PStr ''http://localhost:11434''\<rparr>,
          [(''host'', PStr ''http://localhost:11434'')])"
  "snd (init_llm_client bare_table failing_agent_collaborators working_sdk bare_world) =
     Inr (Ollama \<lparr>host = PStr ''http://localhost:11434''\<rparr>,
          [(''host'', PStr ''http://localhost:11434'')])"
  "snd (init_llm_client cloud_config working_collaborators working_sdk bare_world) =
     Inl (Raised ValueError [] incomplete_message)"
  by (simp_all add: init_llm_client_def dict_subscript_def bare_table_def cloud_config_def
      working_collaborators_def failing_agent_collaborators_def lower_def lower_char_def)

theorem injection_writes_resolved_object_only_witness:
  "heap (fst (get_agent bare_table working_collaborators working_sdk bare_world ''default'')) 0 =
     [(''description'', PStr ''default pipeline''), (''storage'', default_storage)]
   \<and> heap (fst (get_agent bare_table working_collaborators working_sdk bare_world ''default'')) 1 =
       heap bare_world 1
   \<and> table_value bare_table
         (fst (get_agent bare_table working_collaborators working_sdk bare_world ''default''))
         ''fast'' =
       table_value bare_table bare_world ''fast''
   \<and> heap (fst (get_agent bare_table failing_agent_collaborators working_sdk bare_world
         ''research'')) 0 =
       [(''description'', PStr ''default pipeline''), (''storage'', default_storage)]
   \<and> heap (fst (get_agent bare_table working_collaborators working_sdk bare_world ''fast'')) =
       heap bare_world
   \<and> heap (fst (get_agent cloud_config working_collaborators working_sdk bare_world ''default'')) =
       heap bare_world"
proof -
  have d: "map_of (PIPELINE_CONFIGS bare_table) ''default'' = Some 0"
    "map_of (PIPELINE_CONFIGS bare_table) ''fast'' = Some 1"
    "map_of (PIPELINE_CONFIGS bare_table) ''research'' = None"
    by (simp_all add: bare_table_def)
  have hw: "heap bare_world 0 = [(''description'', PStr ''default pipeline'')]"
    "heap bare_world 1 = [(''storage'', PDict [(''db_path'', PStr ''fastdb'')])]"
    by (simp_all add: bare_world_def)
  have c: "\<not> dict_contains (heap bare_world 0) ''storage''"
    "dict_contains (heap bare_world (Suc 0)) ''storage''"
    by (simp_all add: bare_world_def dict_contains_def)
  have s: "dict_set (heap bare_world 0) ''storage'' default_storage =
      [(''description'', PStr ''default pipeline''), (''storage'', default_storage)]"
    by (simp add: hw dict_set_def)
  show ?thesis
    using
      injection_writes_resolved_object_only
        [of bare_table working_collaborators working_sdk bare_world "''default''"]
      injection_writes_resolved_object_only
        [of bare_table failing_agent_collaborators working_sdk bare_world "''research''"]
      injection_writes_resolved_object_only
        [of bare_table working_collaborators working_sdk bare_world "''fast''"]
      injection_writes_resolved_object_only
        [of cloud_config working_collaborators working_sdk bare_world "''default''"]
    by (simp add: init_llm_client_local d c s)
qed

text \<open>C2 as written fails where the resolved entry has no storage: the
  \<^verbatim>\<open>default\<close> entry of the shared table is not the same after \<^verbatim>\<open>get_agent\<close>.\<close>

theorem injection_changes_shared_table:
  "table_value bare_table bare_world ''default'' =
     Some [(''description'', PStr ''default pipeline'')]
   \<and> table_value bare_table
       (fst (get_agent bare_table working_collaborators working_sdk bare_world ''default''))
       ''default'' =
     Some [(''description'', PStr ''default pipeline''), (''storage'', default_storage)]
   \<and> table_value bare_table
       (fst (get_agent bare_table working_collaborators working_sdk bare_world ''default''))
       ''default'' \<noteq>
     table_value bare_table bare_world ''default''"
  by (simp add: table_value_def get_agent_def init_llm_client_def resolve_config_def
      inject_storage_def dict_subscript_def dict_contains_def dict_set_def bare_table_def
      bare_world_def working_collaborators_def lower_def lower_char_def)

text \<open>The write stays when the agent constructor raises afterwards.\<close>

lemma injection_stays_when_agent_raises:
  "snd (get_agent bare_table failing_agent_collaborators working_sdk bare_world ''default'') =
     Inl agent_failure
   \<and> table_value bare_table
       (fst (get_agent bare_table failing_agent_collaborators working_sdk bare_world ''default''))
       ''default'' =
     Some [(''description'', PStr ''default pipeline''), (''storage'', default_storage)]"
  by (simp add: table_value_def get_agent_def init_llm_client_def resolve_config_def
      inject_storage_def dict_subscript_def dict_contains_def dict_set_def bare_table_def
      bare_world_def working_collaborators_def failing_agent_collaborators_def lower_def
      lower_char_def)

text \<open>
  C3 at a table whose \<^verbatim>\<open>default\<close> entry has no storage. The mode \<^verbatim>\<open>research\<close> is
  not in the table; \<^verbatim>\<open>get_indexing_pipeline\<close> resolves it to the \<^verbatim>\<open>default\<close>
  entry and passes that dict on as it is, so the pipeline receives a configuration with
  no \<^verbatim>\<open>storage\<close> key, where \<^verbatim>\<open>get_agent\<close> on the same input passes one that has it.
\<close>

theorem indexing_pipeline_receives_no_storage:
  "map_of (PIPELINE_CONFIGS bare_table) ''research'' = None
   \<and> snd (get_indexing_pipeline bare_table working_collaborators working_sdk bare_world
         ''research'') =
       Inr \<lparr>pipeline_config = 0,
            pipeline_llm_client = Ollama \<lparr>host = PStr ''http://localhost:11434''\<rparr>,
            pipeline_llm_config = [(''host'', PStr ''http://localhost:11434'')]\<rparr>
   \<and> heap (fst (get_indexing_pipeline bare_table working_collaborators working_sdk bare_world
         ''research'')) 0 =
       [(''description'', PStr ''default pipeline'')]
   \<and> \<not> dict_contains
         (heap (fst (get_indexing_pipeline bare_table working_collaborators working_sdk
            bare_world ''research'')) 0)
         ''storage''
   \<and> dict_contains
         (heap (fst (get_agent bare_table working_collaborators working_sdk bare_world
            ''research'')) 0)
         ''storage''"
  by (simp add: get_indexing_pipeline_def get_agent_def init_llm_client_def resolve_config_def
      inject_storage_def dict_subscript_def dict_contains_def dict_set_def bare_table_def
      bare_world_def working_collaborators_def lower_def lower_char_def)

text \<open>What holds of both targets: a mode absent from the table resolves to the object of
  the \<^verbatim>\<open>default\<close> entry; and the agent's configuration has a storage sub-record.\<close>

lemma resolve_config_absent:
  assumes "map_of (PIPELINE_CONFIGS cfg) mode = None"
    and "map_of (PIPELINE_CONFIGS cfg) ''default'' = Some dflt"
  shows "resolve_config cfg mode = Inr dflt"
  using assms by (simp add: resolve_config_def dict_subscript_def)

lemma inject_storage_contains: "dict_contains (heap (inject_storage w config) config) ''storage''"
  by (simp add: inject_storage_def dict_contains_def dict_set_def update_conv')

lemma get_agent_has_storage:
  assumes "get_agent cfg ext sdk w mode = (w', Inr ag)"
  shows "dict_contains (heap w' (agent_pipeline_configs ag)) ''storage''"
proof -
  obtain w1 r where init: "init_llm_client cfg ext sdk w = (w1, r)"
    by (cases "init_llm_client cfg ext sdk w")
  from assms init obtain client llm_config config where
    "r = Inr (client, llm_config)" and "resolve_config cfg mode = Inr config"
    and "w' = inject_storage w1 config" and "agent_pipeline_configs ag = config"
    by (auto simp add: get_agent_def Let_def split: sum.splits prod.splits option.splits)
  then show ?thesis
    by (simp add: inject_storage_contains)
qed

end
